theory Spec2Isabelle
  imports Main
begin

section \<open>Interactive AI Technical Tutor: the session loop\<close>

text \<open>
  A shallow embedding of \<^verbatim>\<open>interactive_ai_tutor.py\<close>. The class
  \<^verbatim>\<open>TechnicalTutor\<close> becomes a record, each method a function that takes the
  record and returns an outcome, the record after the call and the list of effects the call
  performed, in order. Everything outside the process (the user's terminal, the two
  completion backends, the clock, the file system) answers through an environment record
  that is an argument of the turn.

  A Python \<^verbatim>\<open>str\<close> is modelled as a \<open>string\<close> with one \<open>char\<close> per
  code point, so the model covers texts whose code points are below 256; on these
  \<^verbatim>\<open>lower\<close>, \<^verbatim>\<open>strip\<close>, \<^verbatim>\<open>split\<close>, slicing and \<^verbatim>\<open>len\<close> are
  modelled exactly. The texts the program prints contain symbols outside that range, so a
  printed text is a value of the datatype \<open>message\<close>, one constructor per print statement
  of the source, carrying the values its format string interpolates.
\<close>

subsection \<open>Python string operations\<close>

definition isspace :: "char \<Rightarrow> bool" where
  \<comment> \<open>\<^verbatim>\<open>str.isspace\<close> on code points below 256.\<close>
  "isspace c = (of_char c \<in> {9, 10, 11, 12, 13, 28, 29, 30, 31, 32, 133, 160 :: nat})"

definition lower_char :: "char \<Rightarrow> char" where
  "lower_char c =
     (let n = (of_char c :: nat)
      in if (65 \<le> n \<and> n \<le> 90) \<or> (192 \<le> n \<and> n \<le> 222 \<and> n \<noteq> 215)
         then char_of (n + 32) else c)"

definition lower :: "string \<Rightarrow> string" where
  "lower s = map lower_char s"

definition strip :: "string \<Rightarrow> string" where
  "strip s = rev (dropWhile isspace (rev (dropWhile isspace s)))"

definition startswith :: "string \<Rightarrow> string \<Rightarrow> bool" where
  "startswith s p = (take (length p) s = p)"

text \<open>\<^verbatim>\<open>s.split()\<close>: the maximal runs of non-whitespace characters, in order.\<close>

fun split_from :: "string \<Rightarrow> string \<Rightarrow> string list" where
  "split_from cur [] = (if cur = [] then [] else [cur])"
| "split_from cur (c # cs) =
     (if isspace c
      then (if cur = [] then split_from [] cs else cur # split_from [] cs)
      else split_from (cur @ [c]) cs)"

definition split :: "string \<Rightarrow> string list" where
  "split s = split_from [] s"

text \<open>\<^verbatim>\<open>needle in haystack\<close> on strings.\<close>

fun contains :: "string \<Rightarrow> string \<Rightarrow> bool" where
  "contains [] needle = (needle = [])"
| "contains (c # cs) needle = (startswith (c # cs) needle \<or> contains cs needle)"

text \<open>\<^verbatim>\<open>sep.join(xs)\<close>.\<close>

fun join :: "string \<Rightarrow> string list \<Rightarrow> string" where
  "join sep [] = []"
| "join sep [x] = x"
| "join sep (x # y # ys) = x @ sep @ join sep (y # ys)"

text \<open>\<^verbatim>\<open>str(n)\<close> for a non-negative integer.\<close>

definition digit :: "nat \<Rightarrow> char" where
  "digit d = char_of (48 + d)"

function str_nat :: "nat \<Rightarrow> string" where
  "str_nat n = (if n < 10 then [digit n] else str_nat (n div 10) @ [digit (n mod 10)])"
  by pat_completeness auto
termination
  by (relation "measure id") auto

declare str_nat.simps [simp del]

subsection \<open>Data model\<close>

record model_info =
  name :: string
  provider :: string
  description :: string

definition MODEL_GPT :: string where
  "MODEL_GPT = ''gpt-4o-mini''"

definition MODEL_LLAMA :: string where
  "MODEL_LLAMA = ''llama3.2''"

text \<open>The registry is a dict literal; its iteration order is the order of the literal.\<close>

definition AVAILABLE_MODELS :: "(string \<times> model_info) list" where
  "AVAILABLE_MODELS =
     [(''gpt'', \<lparr>name = MODEL_GPT, provider = ''openai'',
                description = ''OpenAI GPT-4o Mini''\<rparr>),
      (''llama'', \<lparr>name = MODEL_LLAMA, provider = ''ollama'',
                  description = ''Llama 3.2 (Local)''\<rparr>)]"

definition model_keys :: "string list" where
  "model_keys = map fst AVAILABLE_MODELS"

text \<open>
  The fields of \<^verbatim>\<open>TechnicalTutor\<close>. \<open>openai_client\<close> is whether the attribute is
  not \<^verbatim>\<open>None\<close>.
\<close>

record tutor =
  openai_client :: bool
  conversation_history :: "(string \<times> string) list"
  current_model :: string

text \<open>
  The exceptions the program can meet. \<open>KeyboardInterrupt\<close> is the only one that is
  not an instance of \<^verbatim>\<open>Exception\<close>, so \<^verbatim>\<open>except Exception\<close> lets it pass.
\<close>

datatype exn =
    IndexError
  | KeyError string
  | AttributeError
  | KeyboardInterrupt
  | OtherException string

definition is_Exception :: "exn \<Rightarrow> bool" where
  "is_Exception e = (e \<noteq> KeyboardInterrupt)"

subsection \<open>Effects\<close>

text \<open>One constructor per text the source prints, displays or logs.\<close>

datatype message =
    InputPrompt
  | Goodbye
  | PleaseEnter
  | HelpText
  | WelcomeText "(string \<times> string \<times> bool) list" string
  | SwitchedTo string
  | ModelNotAvailable string
  | UnknownModel string
  | CurrentModel string
  | HistoryText "string list"
  | NoHistoryYet
  | HistoryCleared
  | UnknownCommand string
  | NoConversationToSave
  | SavedTo string
  | ErrorSaving string
  | ErrorFromModel string exn
  | ErrorMsg exn
  | Thinking string
  | AnswerText string
  | FollowUp
  | SorryNoResponse
  | SessionInterrupted
  | UnexpectedError exn
  | ClientInitialized
  | ClientInitFailed string
  | OllamaConnected
  | OllamaConnectionFailed string

text \<open>
  What a call does to the outside, in order: \<open>OllamaList\<close> is a call of
  \<^verbatim>\<open>ollama.list()\<close>, \<open>OllamaChat\<close> and \<open>OpenAIChat\<close> are the two completion calls
  (with the model name and the user message), \<open>FileOpen\<close> is a successful
  \<^verbatim>\<open>open(filename, 'w')\<close>, \<open>FileWrite\<close> a successful \<^verbatim>\<open>f.write\<close> and
  \<open>FileClose\<close> a successful close of the file at the end of the \<^verbatim>\<open>with\<close> block.
\<close>

datatype event =
    Print message
  | Display message
  | Log message
  | OllamaList
  | OllamaChat string string
  | OpenAIChat string string
  | FileOpen string
  | FileWrite string
  | FileClose

fun is_completion_call :: "event \<Rightarrow> bool" where
  "is_completion_call (OllamaChat _ _) = True"
| "is_completion_call (OpenAIChat _ _) = True"
| "is_completion_call _ = False"

fun is_backend_call :: "event \<Rightarrow> bool" where
  "is_backend_call OllamaList = True"
| "is_backend_call (OllamaChat _ _) = True"
| "is_backend_call (OpenAIChat _ _) = True"
| "is_backend_call _ = False"

fun is_file_event :: "event \<Rightarrow> bool" where
  "is_file_event (FileOpen _) = True"
| "is_file_event (FileWrite _) = True"
| "is_file_event FileClose = True"
| "is_file_event _ = False"

text \<open>
  The text a list of effects has handed to \<^verbatim>\<open>f.write\<close>, in order. Writes are
  buffered: the file is known to hold this text only once \<open>FileClose\<close> has followed.
\<close>

fun written_text :: "event list \<Rightarrow> string" where
  "written_text [] = []"
| "written_text (FileWrite s # evs) = s @ written_text evs"
| "written_text (_ # evs) = written_text evs"

subsection \<open>The environment of a turn\<close>

text \<open>
  What the outside answers during one iteration of the loop. \<open>user_input\<close> is what
  \<^verbatim>\<open>input()\<close> does; \<open>ollama_list k\<close> is what the \<open>k\<close>-th call of
  \<^verbatim>\<open>ollama.list()\<close> of the turn does: it raises an \<^verbatim>\<open>Exception\<close>, or returns the
  installed models, each with its \<^verbatim>\<open>'name'\<close> entry when it has one; \<open>chat\<close> is what
  the completion call does; \<open>now_stamp\<close> and \<open>now_title\<close> are the clock readings in the
  two formats \<^verbatim>\<open>save_conversation\<close> asks for; \<open>file_open\<close> is the message of the
  exception \<^verbatim>\<open>open\<close> raises, if any, \<open>file_write k\<close> that of the \<open>k\<close>-th
  \<^verbatim>\<open>f.write\<close>, and \<open>file_close\<close> that of the close (and flush) of the file when
  the \<^verbatim>\<open>with\<close> block is left. An interrupt is modelled at the two calls that
  block, \<^verbatim>\<open>input()\<close> and the completion call.
\<close>

datatype input_event = Line string | Interrupt | EndOfFile

datatype list_reply = ListRaises string | ListModels "string option list"

datatype chat_reply = ChatReturns "string option" | ChatRaises exn

record turn_env =
  user_input :: input_event
  ollama_list :: "nat \<Rightarrow> list_reply"
  chat :: chat_reply
  now_stamp :: string
  now_title :: string
  file_open :: "string option"
  file_write :: "nat \<Rightarrow> string option"
  file_close :: "string option"

record init_env =
  openai_init :: "string option"
  init_ollama_list :: list_reply

subsection \<open>Construction\<close>

definition setup_environment :: "init_env \<Rightarrow> bool \<times> event list" where
  "setup_environment ienv =
     (let (client, evs1) =
            (case openai_init ienv of
               None \<Rightarrow> (True, [Log ClientInitialized])
             | Some e \<Rightarrow> (False, [Log (ClientInitFailed e)]));
          evs2 =
            (case init_ollama_list ienv of
               ListModels _ \<Rightarrow> [OllamaList, Log OllamaConnected]
             | ListRaises e \<Rightarrow> [OllamaList, Log (OllamaConnectionFailed e)])
      in (client, evs1 @ evs2))"

definition tutor_init :: "init_env \<Rightarrow> tutor \<times> event list" where
  \<comment> \<open>\<^verbatim>\<open>TechnicalTutor.__init__\<close>\<close>
  "tutor_init ienv =
     (let (client, evs) = setup_environment ienv
      in (\<lparr>openai_client = client, conversation_history = [], current_model = ''llama''\<rparr>,
          evs))"

subsection \<open>Availability of a model\<close>

text \<open>
  \<^verbatim>\<open>any(model_info['name'] in model['name'] for model in models['models'])\<close>: the
  generator is consumed in order and stops at the first match; an entry without
  \<^verbatim>\<open>'name'\<close> raises \<^verbatim>\<open>KeyError\<close>, which the caller turns into \<^verbatim>\<open>False\<close>.
\<close>

fun any_name_contains :: "string \<Rightarrow> string option list \<Rightarrow> bool" where
  "any_name_contains nm [] = False"
| "any_name_contains nm (None # rest) = False"
| "any_name_contains nm (Some n # rest) = (contains n nm \<or> any_name_contains nm rest)"

definition test_model_availability :: "tutor \<Rightarrow> list_reply \<Rightarrow> string \<Rightarrow> bool \<times> event list" where
  "test_model_availability self reply model_key =
     (case map_of AVAILABLE_MODELS model_key of
        None \<Rightarrow> (False, [])
      | Some model_info \<Rightarrow>
          if provider model_info = ''openai'' then (openai_client self, [])
          else if provider model_info = ''ollama'' then
            (case reply of
               ListRaises e \<Rightarrow> (False, [OllamaList])
             | ListModels models \<Rightarrow> (any_name_contains (name model_info) models, [OllamaList]))
          else (False, []))"

subsection \<open>Saving the conversation\<close>

text \<open>The arguments of the three \<^verbatim>\<open>f.write\<close> calls per entry, \<^verbatim>\<open>enumerate\<close> counting from \<open>i\<close>.\<close>

fun entry_writes :: "nat \<Rightarrow> (string \<times> string) list \<Rightarrow> string list" where
  "entry_writes i [] = []"
| "entry_writes i ((question, answer) # rest) =
     (''## Question '' @ str_nat i @ ''\<newline>\<newline>'' @ question @ ''\<newline>\<newline>'') #
     (''## Answer '' @ str_nat i @ ''\<newline>\<newline>'' @ answer @ ''\<newline>\<newline>'') #
     ''---\<newline>\<newline>'' #
     entry_writes (Suc i) rest"

definition title_line :: "string \<Rightarrow> string" where
  "title_line t = ''# AI Tutor Conversation - '' @ t @ ''\<newline>\<newline>''"

text \<open>The writes are performed in order until one raises.\<close>

fun do_writes :: "(nat \<Rightarrow> string option) \<Rightarrow> nat \<Rightarrow> string list \<Rightarrow> event list \<times> string option" where
  "do_writes fails k [] = ([], None)"
| "do_writes fails k (w # ws) =
     (case fails k of
        Some e \<Rightarrow> ([], Some e)
      | None \<Rightarrow> (let (evs, r) = do_writes fails (Suc k) ws in (FileWrite w # evs, r)))"

text \<open>
  The \<^verbatim>\<open>with\<close> block lies inside the \<^verbatim>\<open>try\<close>. However its body ends, by the
  last write or by a write that raises, leaving it closes the file; an exception of the
  close replaces the one of the body, and the handler prints whichever arrives. The
  success message is printed only when open, every write and the close have succeeded.
\<close>

definition save_conversation :: "tutor \<Rightarrow> turn_env \<Rightarrow> event list" where
  "save_conversation self env =
     (if conversation_history self = [] then [Print NoConversationToSave]
      else
        (let filename = ''tutor_conversation_'' @ now_stamp env @ ''.md''
         in case file_open env of
              Some e \<Rightarrow> [Print (ErrorSaving e)]
            | None \<Rightarrow>
                (case do_writes (file_write env) 0
                        (title_line (now_title env) # entry_writes 1 (conversation_history self)) of
                   (evs, raised) \<Rightarrow>
                     (case file_close env of
                        Some e2 \<Rightarrow> FileOpen filename # evs @ [Print (ErrorSaving e2)]
                      | None \<Rightarrow>
                          (case raised of
                             Some e \<Rightarrow>
                               FileOpen filename # evs @ [FileClose, Print (ErrorSaving e)]
                           | None \<Rightarrow>
                               FileOpen filename # evs @ [FileClose, Print (SavedTo filename)])))))"

subsection \<open>Commands\<close>

text \<open>The preview lines of \<^verbatim>\<open>!history\<close>, \<^verbatim>\<open>enumerate\<close> counting from \<open>i\<close>.\<close>

fun history_lines :: "nat \<Rightarrow> (string \<times> string) list \<Rightarrow> string list" where
  "history_lines i [] = []"
| "history_lines i ((q, a) # rest) =
     (''**'' @ str_nat i @ ''.** '' @ take 100 q @ (if length q > 100 then ''...'' else [])
        @ ''\<newline>'') #
     history_lines (Suc i) rest"

text \<open>
  The result is what the call returns or raises, the object after the call, and the
  effects. \<^verbatim>\<open>parts[0]\<close> on an empty list raises \<^verbatim>\<open>IndexError\<close>, and
  \<^verbatim>\<open>AVAILABLE_MODELS[k]\<close> on a missing key raises \<^verbatim>\<open>KeyError\<close>.
\<close>

definition handle_command :: "tutor \<Rightarrow> turn_env \<Rightarrow> string \<Rightarrow> (exn + bool) \<times> tutor \<times> event list" where
  "handle_command self env command =
     (if \<not> startswith command ''!'' then (Inr False, self, [])
      else
        (case split (drop 1 command) of
           [] \<Rightarrow> (Inl IndexError, self, [])
         | p0 # args \<Rightarrow>
             (let cmd = lower p0 in
              if cmd \<in> set [''quit'', ''exit''] then (Inr True, self, [Print Goodbye])
              else if cmd = ''help'' then (Inr True, self, [Display HelpText])
              else if cmd = ''model'' then
                (case args of
                   [] \<Rightarrow>
                     (case map_of AVAILABLE_MODELS (current_model self) of
                        None \<Rightarrow> (Inl (KeyError (current_model self)), self, [])
                      | Some m \<Rightarrow> (Inr True, self, [Print (CurrentModel (description m))]))
                 | p1 # others \<Rightarrow>
                     (let new_model = lower p1 in
                      case map_of AVAILABLE_MODELS new_model of
                        None \<Rightarrow>
                          (Inr True, self, [Print (UnknownModel (join '', '' model_keys))])
                      | Some m \<Rightarrow>
                          (let (ok, evs) =
                                 test_model_availability self (ollama_list env 0) new_model
                           in if ok
                              then (Inr True, self\<lparr>current_model := new_model\<rparr>,
                                    evs @ [Print (SwitchedTo (description m))])
                              else (Inr True, self,
                                    evs @ [Print (ModelNotAvailable new_model)]))))
              else if cmd = ''history'' then
                (if conversation_history self \<noteq> []
                 then (Inr True, self,
                       [Display (HistoryText (history_lines 1 (conversation_history self)))])
                 else (Inr True, self, [Print NoHistoryYet]))
              else if cmd = ''clear'' then
                (Inr True, self\<lparr>conversation_history := []\<rparr>, [Print HistoryCleared])
              else if cmd = ''save'' then (Inr True, self, save_conversation self env)
              else (Inr True, self, [Print (UnknownCommand cmd)]))))"

subsection \<open>Questions\<close>

text \<open>
  The body of the \<^verbatim>\<open>try\<close> of \<^verbatim>\<open>ask_question\<close>. With no client object,
  \<^verbatim>\<open>self.openai_client.chat\<close> raises \<^verbatim>\<open>AttributeError\<close> before any call is made.
\<close>

definition ask_body :: "tutor \<Rightarrow> turn_env \<Rightarrow> model_info \<Rightarrow> string \<Rightarrow> (exn + string option) \<times> event list" where
  "ask_body self env model_info user_content =
     (if provider model_info = ''openai'' then
        (if \<not> openai_client self then (Inl AttributeError, [])
         else
           (case chat env of
              ChatReturns content \<Rightarrow> (Inr content, [OpenAIChat (name model_info) user_content])
            | ChatRaises e \<Rightarrow> (Inl e, [OpenAIChat (name model_info) user_content])))
      else if provider model_info = ''ollama'' then
        (case chat env of
           ChatReturns content \<Rightarrow> (Inr content, [OllamaChat (name model_info) user_content])
         | ChatRaises e \<Rightarrow> (Inl e, [OllamaChat (name model_info) user_content]))
      else (Inr None, []))"

definition ask_question :: "tutor \<Rightarrow> turn_env \<Rightarrow> string \<Rightarrow> (exn + string option) \<times> event list" where
  "ask_question self env question =
     (case map_of AVAILABLE_MODELS (current_model self) of
        None \<Rightarrow> (Inl (KeyError (current_model self)), [])
      | Some model_info \<Rightarrow>
          (case ask_body self env model_info
                  (''Please give a detailed explanation to the following question: '' @ question) of
             (Inr content, evs) \<Rightarrow> (Inr content, evs)
           | (Inl e, evs) \<Rightarrow>
               if is_Exception e
               then (Inr None,
                     evs @ [Log (ErrorFromModel (current_model self) e), Print (ErrorMsg e)])
               else (Inl e, evs)))"

subsection \<open>The session loop\<close>

text \<open>
  How an iteration of \<^verbatim>\<open>while True\<close> ends: with \<^verbatim>\<open>continue\<close> or by reaching the
  end of the body, with \<^verbatim>\<open>break\<close>, or with \<^verbatim>\<open>sys.exit(0)\<close> inside
  \<^verbatim>\<open>get_user_input\<close> (\<^verbatim>\<open>SystemExit\<close> passes every handler of the program).
\<close>

datatype loop_status = Continue | Break | SysExit

text \<open>The two \<^verbatim>\<open>except\<close> clauses of the loop.\<close>

definition on_exception :: "exn \<Rightarrow> tutor \<Rightarrow> event list \<Rightarrow> loop_status \<times> tutor \<times> event list" where
  "on_exception e self evs =
     (if e = KeyboardInterrupt then (Break, self, evs @ [Print SessionInterrupted])
      else (Continue, self, evs @ [Log (UnexpectedError e), Print (UnexpectedError e)]))"

definition loop_iteration :: "tutor \<Rightarrow> turn_env \<Rightarrow> loop_status \<times> tutor \<times> event list" where
  "loop_iteration self env =
     (case user_input env of
        Interrupt \<Rightarrow> (SysExit, self, [Print InputPrompt, Print Goodbye])
      | EndOfFile \<Rightarrow> (SysExit, self, [Print InputPrompt, Print Goodbye])
      | Line raw \<Rightarrow>
          (let question = strip raw in
           if question = [] then (Continue, self, [Print InputPrompt, Print PleaseEnter])
           else
             (case handle_command self env question of
                (Inl e, self1, evs) \<Rightarrow> on_exception e self1 (Print InputPrompt # evs)
              | (Inr handled, self1, evs) \<Rightarrow>
                  if handled then
                    (if startswith question ''!quit'' \<or> startswith question ''!exit''
                     then (Break, self1, Print InputPrompt # evs)
                     else (Continue, self1, Print InputPrompt # evs))
                  else
                    (case map_of AVAILABLE_MODELS (current_model self1) of
                       None \<Rightarrow>
                         on_exception (KeyError (current_model self1)) self1
                           (Print InputPrompt # evs)
                     | Some m \<Rightarrow>
                         (case ask_question self1 env question of
                            (Inl e, evs2) \<Rightarrow>
                              on_exception e self1
                                (Print InputPrompt # evs @ Print (Thinking (description m)) # evs2)
                          | (Inr None, evs2) \<Rightarrow>
                              (Continue, self1,
                               Print InputPrompt # evs @ Print (Thinking (description m)) # evs2
                                 @ [Print SorryNoResponse])
                          | (Inr (Some answer), evs2) \<Rightarrow>
                              if answer \<noteq> [] then
                                (Continue,
                                 self1\<lparr>conversation_history :=
                                          conversation_history self1 @ [(question, answer)]\<rparr>,
                                 Print InputPrompt # evs @ Print (Thinking (description m)) # evs2
                                   @ [Display (AnswerText answer), Print FollowUp])
                              else
                                (Continue, self1,
                                 Print InputPrompt # evs @ Print (Thinking (description m)) # evs2
                                   @ [Print SorryNoResponse]))))))"

text \<open>
  The loop runs as long as the user types: it is driven by the list of the environments of
  the turns typed so far. \<open>Continue\<close> at the end of the list is the loop blocked in
  \<^verbatim>\<open>input()\<close>; after \<open>Break\<close> or \<open>SysExit\<close> no further turn is read.
\<close>

fun session_loop :: "tutor \<Rightarrow> turn_env list \<Rightarrow> loop_status \<times> tutor \<times> event list" where
  "session_loop self [] = (Continue, self, [])"
| "session_loop self (env # envs) =
     (case loop_iteration self env of
        (Continue, self1, evs) \<Rightarrow>
          (case session_loop self1 envs of (st, self2, evs2) \<Rightarrow> (st, self2, evs @ evs2))
      | (Break, self1, evs) \<Rightarrow> (Break, self1, evs)
      | (SysExit, self1, evs) \<Rightarrow> (SysExit, self1, evs))"

text \<open>
  The lines of the welcome text, one per entry of the registry; \<open>k\<close> counts the calls of
  \<^verbatim>\<open>ollama.list()\<close> made so far.
\<close>

fun welcome_lines :: "tutor \<Rightarrow> (nat \<Rightarrow> list_reply) \<Rightarrow> nat \<Rightarrow> (string \<times> model_info) list \<Rightarrow> (string \<times> string \<times> bool) list \<times> event list" where
  "welcome_lines self replies k [] = ([], [])"
| "welcome_lines self replies k ((key, model) # rest) =
     (case test_model_availability self (replies k) key of
        (ok, evs) \<Rightarrow>
          (case welcome_lines self replies (k + length evs) rest of
             (ls, evs2) \<Rightarrow> ((key, description model, ok) # ls, evs @ evs2)))"

definition display_welcome :: "tutor \<Rightarrow> (nat \<Rightarrow> list_reply) \<Rightarrow> (exn + unit) \<times> event list" where
  "display_welcome self replies =
     (case welcome_lines self replies 0 AVAILABLE_MODELS of
        (ls, evs) \<Rightarrow>
          (case map_of AVAILABLE_MODELS (current_model self) of
             None \<Rightarrow> (Inl (KeyError (current_model self)), evs)
           | Some m \<Rightarrow> (Inr (), evs @ [Display (WelcomeText ls (description m))])))"

definition run_interactive_session :: "tutor \<Rightarrow> (nat \<Rightarrow> list_reply) \<Rightarrow> turn_env list \<Rightarrow> (exn + loop_status) \<times> tutor \<times> event list" where
  "run_interactive_session self replies envs =
     (case display_welcome self replies of
        (Inl e, evs) \<Rightarrow> (Inl e, self, evs)
      | (Inr u, evs) \<Rightarrow>
          (case session_loop self envs of (st, self1, evs2) \<Rightarrow> (Inr st, self1, evs @ evs2)))"

subsection \<open>The export format, as the specification words it\<close>

text \<open>
  The block of entry \<open>n\<close>: a level-2 heading \<^verbatim>\<open>Question n\<close>, the question text, a
  level-2 heading \<^verbatim>\<open>Answer n\<close>, the answer text, a horizontal rule; each followed by
  an empty line.
\<close>

definition spec_block :: "nat \<Rightarrow> string \<times> string \<Rightarrow> string" where
  "spec_block n entry =
     ''## Question '' @ str_nat n @ ''\<newline>\<newline>'' @ fst entry @ ''\<newline>\<newline>'' @
     ''## Answer '' @ str_nat n @ ''\<newline>\<newline>'' @ snd entry @ ''\<newline>\<newline>'' @
     ''---\<newline>\<newline>''"

text \<open>One block per entry, numbered from 1, in the order of the history.\<close>

definition spec_blocks :: "(string \<times> string) list \<Rightarrow> string list" where
  "spec_blocks h = map (\<lambda>i. spec_block (Suc i) (h ! i)) [0..<length h]"

text \<open>An environment for examples: the user types \<open>s\<close>, nothing is installed, nothing fails.\<close>

definition typed :: "string \<Rightarrow> turn_env" where
  "typed s =
     \<lparr>user_input = Line s, ollama_list = (\<lambda>k. ListModels []), chat = ChatReturns None,
      now_stamp = ''20240101_120000'', now_title = ''2024-01-01 12:00:00'',
      file_open = None, file_write = (\<lambda>k. None), file_close = None\<rparr>"

definition fresh :: tutor where
  "fresh = \<lparr>openai_client = False, conversation_history = [], current_model = ''llama''\<rparr>"

text \<open>The history of the specification's save scenario.\<close>

definition two_exchanges :: tutor where
  "two_exchanges =
     fresh\<lparr>conversation_history :=
       [(''what is a list?'', ''A list is ...''), (''explain recursion'', ''Recursion is ...'')]\<rparr>"

text \<open>A turn in which the completion call raises.\<close>

definition backend_down :: turn_env where
  "backend_down =
     (typed ''what is a list?'')\<lparr>chat := ChatRaises (OtherException ''connection refused'')\<rparr>"

text \<open>A turn in which the local daemon lists the model; a construction in which nothing fails.\<close>

definition llama_installed :: turn_env where
  "llama_installed =
     (typed ''!model llama'')\<lparr>ollama_list := (\<lambda>k. ListModels [Some ''llama3.2:latest''])\<rparr>"

definition init_ok :: init_env where
  "init_ok = \<lparr>openai_init = None, init_ollama_list = ListModels []\<rparr>"


section \<open>Properties\<close>

subsection \<open>Evaluating the string operations\<close>

lemmas string_eval =
  strip_def isspace_def startswith_def split_def lower_def lower_char_def Let_def
  char_of_def bit_Suc_0_iff

lemma handle_command_not_command:
  "\<not> startswith command ''!'' \<Longrightarrow> handle_command self env command = (Inr False, self, [])"
  by (simp add: handle_command_def)

lemma handle_command_no_words:
  "startswith command ''!'' \<Longrightarrow> split (drop 1 command) = [] \<Longrightarrow>
   handle_command self env command = (Inl IndexError, self, [])"
  by (simp add: handle_command_def)

lemma handle_command_unknown_verb:
  assumes "startswith command ''!''" and "split (drop 1 command) = p0 # args"
    and "lower p0 \<notin> set [''quit'', ''exit'', ''help'', ''model'', ''history'', ''clear'', ''save'']"
  shows "handle_command self env command = (Inr True, self, [Print (UnknownCommand (lower p0))])"
  using assms by (simp add: handle_command_def Let_def)

subsection \<open>The sentinel alone\<close>

text \<open>
  C10: when the line the user typed is the sentinel alone (after \<^verbatim>\<open>strip\<close>), the
  remainder splits into zero words, \<^verbatim>\<open>parts[0]\<close> raises \<^verbatim>\<open>IndexError\<close> out of
  \<^verbatim>\<open>handle_command\<close>, and the loop's handler for unexpected errors logs and prints it
  and goes on to the next turn, the selected model and the history being what they were.
\<close>

theorem sentinel_alone_index_error:
  assumes "user_input env = Line raw" and "strip raw = ''!''"
  shows "split (drop 1 (strip raw)) = [] \<and>
         handle_command self env (strip raw) = (Inl IndexError, self, []) \<and>
         loop_iteration self env =
           (Continue, self,
            [Print InputPrompt, Log (UnexpectedError IndexError),
             Print (UnexpectedError IndexError)])"
proof -
  have words: "split (drop 1 (strip raw)) = []"
    using assms(2) by (simp add: split_def)
  have raised: "handle_command self env (strip raw) = (Inl IndexError, self, [])"
    using assms(2) words by (simp add: handle_command_no_words startswith_def)
  have "loop_iteration self env =
          on_exception IndexError self [Print InputPrompt]"
    using assms raised by (simp add: loop_iteration_def)
  then show ?thesis
    using words raised by (simp add: on_exception_def)
qed

theorem sentinel_alone_index_error_witness:
  "user_input (typed ''  !  '') = Line ''  !  '' \<and> strip ''  !  '' = ''!'' \<and>
   handle_command fresh (typed ''  !  '') ''!'' = (Inl IndexError, fresh, []) \<and>
   loop_iteration fresh (typed ''  !  '') =
     (Continue, fresh,
      [Print InputPrompt, Log (UnexpectedError IndexError),
       Print (UnexpectedError IndexError)])"
proof -
  have a: "user_input (typed ''  !  '') = Line ''  !  ''"
    by (simp add: typed_def)
  have b: "strip ''  !  '' = ''!''"
    by (simp add: strip_def isspace_def)
  show ?thesis
    using sentinel_alone_index_error [OF a b, of fresh] a b by simp
qed

subsection \<open>Leaving the loop\<close>

text \<open>
  C6: the verb is matched without regard to case, and a verb \<^verbatim>\<open>quit\<close> or
  \<^verbatim>\<open>exit\<close> ends the loop. The handler does match \<^verbatim>\<open>!QUIT\<close> (it prints the
  farewell), but the loop decides on \<^verbatim>\<open>question.startswith('!quit')\<close>, which is
  case-sensitive: after \<^verbatim>\<open>!QUIT\<close> the loop goes on, after \<^verbatim>\<open>!quit\<close> it ends.
\<close>

theorem uppercase_quit_keeps_running:
  "handle_command self (typed ''!QUIT'') ''!QUIT'' = (Inr True, self, [Print Goodbye]) \<and>
   loop_iteration self (typed ''!QUIT'') = (Continue, self, [Print InputPrompt, Print Goodbye]) \<and>
   loop_iteration self (typed ''!quit'') = (Break, self, [Print InputPrompt, Print Goodbye])"
  by (simp add: loop_iteration_def handle_command_def typed_def string_eval)

text \<open>
  C5: a verb that is not recognised is reported as an unknown command, never ends the loop
  and never changes the session. The handler reports \<^verbatim>\<open>!quitx\<close> as unknown and
  leaves the session as it was, but the loop's prefix test on the raw line then ends the
  loop.
\<close>

theorem unknown_verb_with_quit_prefix_stops:
  "handle_command self (typed ''!quitx'') ''!quitx'' =
     (Inr True, self, [Print (UnknownCommand ''quitx'')]) \<and>
   loop_iteration self (typed ''!quitx'') =
     (Break, self, [Print InputPrompt, Print (UnknownCommand ''quitx'')])"
  by (simp add: loop_iteration_def handle_command_def typed_def string_eval)

subsection \<open>Saving\<close>

lemma do_writes_no_failure:
  "\<forall>k. fails k = None \<Longrightarrow> do_writes fails k ws = (map FileWrite ws, None)"
  by (induction ws arbitrary: k) simp_all

lemma written_text_append:
  "written_text (evs @ evs') = written_text evs @ written_text evs'"
  by (induction evs rule: written_text.induct) simp_all

lemma written_text_writes: "written_text (map FileWrite ws) = concat ws"
  by (induction ws) simp_all

lemma entry_writes_blocks:
  "concat (entry_writes i h) = concat (map (\<lambda>j. spec_block (i + j) (h ! j)) [0..<length h])"
proof (induction h arbitrary: i)
  case Nil
  then show ?case by simp
next
  case (Cons e rest)
  obtain q a where e: "e = (q, a)" by (cases e)
  have "concat (entry_writes i (e # rest)) = spec_block i e @ concat (entry_writes (Suc i) rest)"
    by (simp add: e spec_block_def)
  also have "\<dots> = spec_block i e @ concat (map (\<lambda>j. spec_block (Suc i + j) (rest ! j)) [0..<length rest])"
    by (simp only: Cons.IH)
  also have "\<dots> = concat (map (\<lambda>j. spec_block (i + j) ((e # rest) ! j)) [0..<length (e # rest)])"
    by (simp add: map_upt_Suc del: upt_Suc)
  finally show ?case .
qed

lemma save_conversation_success:
  assumes "conversation_history self \<noteq> []" and "file_open env = None"
    and "\<forall>k. file_write env k = None" and "file_close env = None"
  shows "save_conversation self env =
           FileOpen (''tutor_conversation_'' @ now_stamp env @ ''.md'') #
           map FileWrite (title_line (now_title env) # entry_writes 1 (conversation_history self)) @
           [FileClose, Print (SavedTo (''tutor_conversation_'' @ now_stamp env @ ''.md''))]"
  using assms by (simp add: save_conversation_def do_writes_no_failure Let_def)

text \<open>
  C1: for a history that is not empty, when the file opens, every write succeeds and the
  file closes, \<^verbatim>\<open>save_conversation\<close> opens the file, writes, closes it and reports
  the file name; the file holds, after the title line, exactly one block per entry of the
  history, in the order of the history; the block of entry \<open>n\<close> (counting from 1) is
  the heading \<^verbatim>\<open>## Question n\<close>, the question, the heading \<^verbatim>\<open>## Answer n\<close>, the
  answer and a horizontal rule; there are as many blocks as the history has entries.
\<close>

theorem export_writes_one_block_per_entry:
  assumes "conversation_history self \<noteq> []" and "file_open env = None"
    and "\<forall>k. file_write env k = None" and "file_close env = None"
  shows "save_conversation self env =
           FileOpen (''tutor_conversation_'' @ now_stamp env @ ''.md'') #
           map FileWrite (title_line (now_title env) # entry_writes 1 (conversation_history self)) @
           [FileClose, Print (SavedTo (''tutor_conversation_'' @ now_stamp env @ ''.md''))] \<and>
         written_text (save_conversation self env) =
           title_line (now_title env) @ concat (spec_blocks (conversation_history self)) \<and>
         length (spec_blocks (conversation_history self)) = length (conversation_history self) \<and>
         (\<forall>i. i < length (conversation_history self) \<longrightarrow>
              spec_blocks (conversation_history self) ! i =
                spec_block (Suc i) (conversation_history self ! i))"
proof -
  let ?h = "conversation_history self"
  have events: "save_conversation self env =
           FileOpen (''tutor_conversation_'' @ now_stamp env @ ''.md'') #
           map FileWrite (title_line (now_title env) # entry_writes 1 ?h) @
           [FileClose, Print (SavedTo (''tutor_conversation_'' @ now_stamp env @ ''.md''))]"
    using assms by (rule save_conversation_success)
  have "written_text (save_conversation self env) =
          concat (title_line (now_title env) # entry_writes 1 ?h)"
    unfolding events by (simp add: written_text_append written_text_writes del: map_append list.map)
  also have "\<dots> = title_line (now_title env) @ concat (spec_blocks ?h)"
    by (simp add: entry_writes_blocks spec_blocks_def)
  finally have content: "written_text (save_conversation self env) =
      title_line (now_title env) @ concat (spec_blocks ?h)" .
  have count: "length (spec_blocks ?h) = length ?h"
    by (simp add: spec_blocks_def)
  have each: "\<forall>i. i < length ?h \<longrightarrow> spec_blocks ?h ! i = spec_block (Suc i) (?h ! i)"
    by (simp add: spec_blocks_def)
  show ?thesis
    by (intro conjI) (rule events content count each)+
qed

theorem export_writes_one_block_per_entry_witness:
  "conversation_history two_exchanges \<noteq> [] \<and> file_open (typed ''!save'') = None \<and>
   (\<forall>k. file_write (typed ''!save'') k = None) \<and> file_close (typed ''!save'') = None \<and>
   length (spec_blocks (conversation_history two_exchanges)) = 2 \<and>
   FileClose \<in> set (save_conversation two_exchanges (typed ''!save'')) \<and>
   written_text (save_conversation two_exchanges (typed ''!save'')) =
     ''# AI Tutor Conversation - 2024-01-01 12:00:00\<newline>\<newline>'' @
     ''## Question 1\<newline>\<newline>what is a list?\<newline>\<newline>'' @
     ''## Answer 1\<newline>\<newline>A list is ...\<newline>\<newline>---\<newline>\<newline>'' @
     ''## Question 2\<newline>\<newline>explain recursion\<newline>\<newline>'' @
     ''## Answer 2\<newline>\<newline>Recursion is ...\<newline>\<newline>---\<newline>\<newline>''"
proof -
  have a: "conversation_history two_exchanges \<noteq> []"
    by (simp add: two_exchanges_def)
  have b: "file_open (typed ''!save'') = None"
    by (simp add: typed_def)
  have c: "\<forall>k. file_write (typed ''!save'') k = None"
    by (simp add: typed_def)
  have cl: "file_close (typed ''!save'') = None"
    by (simp add: typed_def)
  have blocks: "spec_blocks (conversation_history two_exchanges) =
     [''## Question 1\<newline>\<newline>what is a list?\<newline>\<newline>## Answer 1\<newline>\<newline>A list is ...\<newline>\<newline>---\<newline>\<newline>'',
      ''## Question 2\<newline>\<newline>explain recursion\<newline>\<newline>## Answer 2\<newline>\<newline>Recursion is ...\<newline>\<newline>---\<newline>\<newline>'']"
    by (simp add: two_exchanges_def spec_blocks_def spec_block_def str_nat.simps digit_def
        char_of_def bit_Suc_0_iff upt_rec)
  have d: "now_title (typed ''!save'') = ''2024-01-01 12:00:00''"
    by (simp add: typed_def)
  note t = export_writes_one_block_per_entry [OF a b c cl]
  have e: "written_text (save_conversation two_exchanges (typed ''!save'')) =
      title_line (now_title (typed ''!save'')) @
      concat (spec_blocks (conversation_history two_exchanges))"
    using t by blast
  have f: "FileClose \<in> set (save_conversation two_exchanges (typed ''!save''))"
    by (simp add: t [THEN conjunct1])
  show ?thesis
    using a b c cl f by (simp add: e blocks d title_line_def)
qed

text \<open>
  C4: \<^verbatim>\<open>save_conversation\<close> on an empty history reports that there is nothing to
  save and neither opens nor writes a file; so from every session, \<^verbatim>\<open>!clear\<close>
  followed at once by \<^verbatim>\<open>!save\<close> ends in that report.
\<close>

theorem save_after_clear_reports_no_history:
  "save_conversation (self\<lparr>conversation_history := []\<rparr>) env = [Print NoConversationToSave] \<and>
   filter is_file_event (save_conversation (self\<lparr>conversation_history := []\<rparr>) env) = [] \<and>
   handle_command self env1 ''!clear'' =
     (Inr True, self\<lparr>conversation_history := []\<rparr>, [Print HistoryCleared]) \<and>
   handle_command (self\<lparr>conversation_history := []\<rparr>) env2 ''!save'' =
     (Inr True, self\<lparr>conversation_history := []\<rparr>, [Print NoConversationToSave]) \<and>
   session_loop self
     [env1\<lparr>user_input := Line ''!clear''\<rparr>, env2\<lparr>user_input := Line ''!save''\<rparr>] =
     (Continue, self\<lparr>conversation_history := []\<rparr>,
      [Print InputPrompt, Print HistoryCleared, Print InputPrompt, Print NoConversationToSave])"
  by (simp add: loop_iteration_def handle_command_def save_conversation_def string_eval)

theorem save_after_clear_reports_no_history_witness:
  "session_loop two_exchanges [typed ''!clear'', typed ''!save''] =
     (Continue, fresh,
      [Print InputPrompt, Print HistoryCleared, Print InputPrompt, Print NoConversationToSave])"
  using save_after_clear_reports_no_history
          [of two_exchanges "typed ''!save''" "typed ''!clear''" "typed ''!save''"]
  by (simp add: typed_def two_exchanges_def fresh_def)

subsection \<open>The registry and the availability test\<close>

lemma model_keys_eval: "model_keys = [''gpt'', ''llama'']"
  by (simp add: model_keys_def AVAILABLE_MODELS_def)

lemma registry_lookup:
  "map_of AVAILABLE_MODELS k =
     (if k = ''gpt'' then
        Some \<lparr>name = ''gpt-4o-mini'', provider = ''openai'', description = ''OpenAI GPT-4o Mini''\<rparr>
      else if k = ''llama'' then
        Some \<lparr>name = ''llama3.2'', provider = ''ollama'', description = ''Llama 3.2 (Local)''\<rparr>
      else None)"
  by (simp add: AVAILABLE_MODELS_def MODEL_GPT_def MODEL_LLAMA_def)

lemma registry_lookup_None: "map_of AVAILABLE_MODELS k = None \<longleftrightarrow> k \<notin> set model_keys"
  by (simp add: registry_lookup model_keys_eval)

lemma availability_gpt: "test_model_availability self reply ''gpt'' = (openai_client self, [])"
  by (simp add: test_model_availability_def registry_lookup)

lemma availability_llama:
  "test_model_availability self reply ''llama'' =
     ((case reply of ListRaises e \<Rightarrow> False
       | ListModels models \<Rightarrow> any_name_contains ''llama3.2'' models), [OllamaList])"
  by (simp add: test_model_availability_def registry_lookup split: list_reply.splits)

lemma handle_command_model_arg:
  assumes "startswith command ''!''" and "split (drop 1 command) = p0 # p1 # others"
    and "lower p0 = ''model''"
  shows "handle_command self env command =
     (case map_of AVAILABLE_MODELS (lower p1) of
        None \<Rightarrow> (Inr True, self, [Print (UnknownModel (join '', '' model_keys))])
      | Some m \<Rightarrow>
          if fst (test_model_availability self (ollama_list env 0) (lower p1))
          then (Inr True, self\<lparr>current_model := lower p1\<rparr>,
                snd (test_model_availability self (ollama_list env 0) (lower p1)) @
                [Print (SwitchedTo (description m))])
          else (Inr True, self,
                snd (test_model_availability self (ollama_list env 0) (lower p1)) @
                [Print (ModelNotAvailable (lower p1))]))"
  using assms by (simp add: handle_command_def Let_def split_beta split: option.splits)

subsection \<open>Switching the model\<close>




subsection \<open>Backend calls of a command\<close>

lemma do_writes_backend_calls:
  "filter is_backend_call (fst (do_writes fails k ws)) = []"
  by (induction ws arbitrary: k) (simp_all add: split_beta split: option.splits)

lemma save_conversation_backend_calls:
  "filter is_backend_call (save_conversation self env) = []"
proof (cases "do_writes (file_write env) 0
                (title_line (now_title env) # entry_writes 1 (conversation_history self))")
  case (Pair evs r)
  have "filter is_backend_call
          (fst (do_writes (file_write env) 0
                 (title_line (now_title env) # entry_writes 1 (conversation_history self)))) = []"
    by (rule do_writes_backend_calls)
  then have "filter is_backend_call evs = []"
    by (simp only: Pair fst_conv)
  then show ?thesis
    using Pair by (simp add: save_conversation_def Let_def split: option.splits)
qed

lemma strip_keeps_sentinel:
  assumes "startswith raw ''!''"
  shows "startswith (strip raw) ''!''"
proof -
  obtain rest where raw: "raw = CHR ''!'' # rest"
    using assms by (cases raw) (simp_all add: startswith_def)
  have ns: "\<not> isspace CHR ''!''"
    by (simp add: isspace_def)
  have "dropWhile isspace (rev rest @ [CHR ''!'']) = dropWhile isspace (rev rest) @ [CHR ''!'']"
    using ns by (simp add: dropWhile_append3)
  then have "strip raw = CHR ''!'' # rev (dropWhile isspace (rev rest))"
    using ns by (simp add: strip_def raw)
  then show ?thesis
    by (simp add: startswith_def)
qed

lemma handle_command_handles:
  "startswith command ''!'' \<Longrightarrow> fst (handle_command self env command) \<noteq> Inr False"
  by (simp add: handle_command_def Let_def split_beta split: list.splits option.splits)

lemma handle_command_backend_calls:
  "filter is_backend_call (snd (snd (handle_command self env command))) =
     (case split (drop 1 command) of
        p0 # p1 # others \<Rightarrow>
          if startswith command ''!'' \<and> lower p0 = ''model'' \<and> lower p1 = ''llama''
          then [OllamaList] else []
      | _ \<Rightarrow> [])"
  by (simp add: handle_command_def Let_def split_beta registry_lookup availability_gpt
      availability_llama save_conversation_backend_calls split: list.splits)

lemma completion_calls_are_backend_calls:
  "filter is_completion_call (filter is_backend_call evs) = filter is_completion_call evs"
  by (induction evs) (auto elim: is_completion_call.elims)

lemma loop_iteration_command:
  assumes "user_input env = Line raw" and "startswith (strip raw) ''!''"
  shows "loop_iteration self env =
     (case handle_command self env (strip raw) of
        (Inl e, self1, evs) \<Rightarrow> on_exception e self1 (Print InputPrompt # evs)
      | (Inr handled, self1, evs) \<Rightarrow>
          (if startswith (strip raw) ''!quit'' \<or> startswith (strip raw) ''!exit''
           then Break else Continue, self1, Print InputPrompt # evs))"
proof -
  have ne: "strip raw \<noteq> []"
    using assms(2) by (auto simp add: startswith_def)
  have "fst (handle_command self env (strip raw)) \<noteq> Inr False"
    using assms(2) by (rule handle_command_handles)
  then show ?thesis
    using assms(1) ne
    by (cases "handle_command self env (strip raw)")
       (auto simp add: loop_iteration_def Let_def split: sum.splits)
qed

lemma on_exception_events:
  "snd (snd (on_exception e self evs)) =
     evs @ (if e = KeyboardInterrupt then [Print SessionInterrupted]
            else [Log (UnexpectedError e), Print (UnexpectedError e)])"
  by (simp add: on_exception_def)

lemma loop_iteration_command_events:
  assumes "user_input env = Line raw" and "startswith (strip raw) ''!''"
  shows "filter is_backend_call (snd (snd (loop_iteration self env))) =
         filter is_backend_call (snd (snd (handle_command self env (strip raw))))"
  by (cases "handle_command self env (strip raw)")
     (auto simp add: loop_iteration_command [OF assms] on_exception_events split: sum.splits)

text \<open>
  C3 as stated (no backend call of any kind occurs in a turn whose line starts with the
  sentinel) fails: \<^verbatim>\<open>!model llama\<close> calls \<^verbatim>\<open>ollama.list()\<close> to test the
  availability of the model.
\<close>

theorem model_command_probes_backend:
  "user_input (typed ''!model llama'') = Line ''!model llama'' \<and>
   startswith ''!model llama'' ''!'' \<and>
   loop_iteration fresh (typed ''!model llama'') =
     (Continue, fresh, [Print InputPrompt, OllamaList, Print (ModelNotAvailable ''llama'')]) \<and>
   filter is_backend_call (snd (snd (loop_iteration fresh (typed ''!model llama'')))) =
     [OllamaList]"
  by (simp add: loop_iteration_def handle_command_def typed_def fresh_def string_eval
      registry_lookup availability_llama)

text \<open>
  C3, amended: a line that starts with the sentinel once stripped (so every line that
  starts with it, by \<open>strip_keeps_sentinel\<close>) is handled by \<^verbatim>\<open>handle_command\<close>,
  which never answers \<^verbatim>\<open>False\<close> for it, so the question branch of the loop is not
  entered; the session after the turn is the one the handler left; no completion call
  occurs in the turn, whatever the verb; and the only backend call a command turn can make
  is the one \<^verbatim>\<open>ollama.list()\<close> of \<^verbatim>\<open>!model llama\<close>.
\<close>

theorem command_never_forwarded:
  assumes "user_input env = Line raw" and "startswith (strip raw) ''!''"
  shows "fst (handle_command self env (strip raw)) \<noteq> Inr False \<and>
         fst (snd (loop_iteration self env)) = fst (snd (handle_command self env (strip raw))) \<and>
         filter is_completion_call (snd (snd (loop_iteration self env))) = [] \<and>
         filter is_backend_call (snd (snd (loop_iteration self env))) =
           (case split (drop 1 (strip raw)) of
              p0 # p1 # others \<Rightarrow>
                if lower p0 = ''model'' \<and> lower p1 = ''llama'' then [OllamaList] else []
            | _ \<Rightarrow> [])"
proof -
  have handled: "fst (handle_command self env (strip raw)) \<noteq> Inr False"
    using assms(2) by (rule handle_command_handles)
  have state: "fst (snd (loop_iteration self env)) = fst (snd (handle_command self env (strip raw)))"
    by (cases "handle_command self env (strip raw)")
       (auto simp add: loop_iteration_command [OF assms] on_exception_def split: sum.splits)
  have backend: "filter is_backend_call (snd (snd (loop_iteration self env))) =
           (case split (drop 1 (strip raw)) of
              p0 # p1 # others \<Rightarrow>
                if lower p0 = ''model'' \<and> lower p1 = ''llama'' then [OllamaList] else []
            | _ \<Rightarrow> [])"
    using assms(2)
    by (simp add: loop_iteration_command_events [OF assms] handle_command_backend_calls
        split: list.splits)
  have "filter is_completion_call
          (filter is_backend_call (snd (snd (loop_iteration self env)))) = []"
    unfolding backend by (simp split: list.splits)
  then have completion: "filter is_completion_call (snd (snd (loop_iteration self env))) = []"
    by (simp only: completion_calls_are_backend_calls)
  show ?thesis
    by (intro conjI) (rule handled state completion backend)+
qed

theorem command_never_forwarded_witness:
  "user_input (typed ''!frobnicate'') = Line ''!frobnicate'' \<and>
   startswith (strip ''!frobnicate'') ''!'' \<and>
   fst (handle_command fresh (typed ''!frobnicate'') (strip ''!frobnicate'')) \<noteq> Inr False \<and>
   filter is_completion_call (snd (snd (loop_iteration fresh (typed ''!frobnicate'')))) = [] \<and>
   filter is_backend_call (snd (snd (loop_iteration fresh (typed ''!frobnicate'')))) = []"
proof -
  have a: "user_input (typed ''!frobnicate'') = Line ''!frobnicate''"
    by (simp add: typed_def)
  have b: "startswith (strip ''!frobnicate'') ''!''"
    by (simp add: string_eval)
  have c: "split (drop 1 (strip ''!frobnicate'')) = [''frobnicate'']"
    by (simp add: string_eval)
  note t = command_never_forwarded [OF a b, of fresh]
  have d: "filter is_backend_call (snd (snd (loop_iteration fresh (typed ''!frobnicate'')))) = []"
    using t by (simp only: c list.case)
  show ?thesis
    using a b t d by (simp only: simp_thms)
qed

subsection \<open>Question turns\<close>

lemma on_exception_state: "fst (snd (on_exception e self evs)) = self"
  by (simp add: on_exception_def)

lemma loop_iteration_question:
  assumes "user_input env = Line raw" and "strip raw \<noteq> []"
    and "\<not> startswith (strip raw) ''!''"
  shows "loop_iteration self env =
     (case map_of AVAILABLE_MODELS (current_model self) of
        None \<Rightarrow> on_exception (KeyError (current_model self)) self [Print InputPrompt]
      | Some m \<Rightarrow>
          (case ask_question self env (strip raw) of
             (Inl e, evs2) \<Rightarrow>
               on_exception e self (Print InputPrompt # Print (Thinking (description m)) # evs2)
           | (Inr None, evs2) \<Rightarrow>
               (Continue, self,
                Print InputPrompt # Print (Thinking (description m)) # evs2 @ [Print SorryNoResponse])
           | (Inr (Some answer), evs2) \<Rightarrow>
               if answer \<noteq> [] then
                 (Continue,
                  self\<lparr>conversation_history := conversation_history self @ [(strip raw, answer)]\<rparr>,
                  Print InputPrompt # Print (Thinking (description m)) # evs2
                    @ [Display (AnswerText answer), Print FollowUp])
               else
                 (Continue, self,
                  Print InputPrompt # Print (Thinking (description m)) # evs2
                    @ [Print SorryNoResponse])))"
  using assms
  by (simp add: loop_iteration_def handle_command_not_command Let_def
      split: option.splits sum.splits prod.splits)

lemma ask_question_llama:
  "current_model self = ''llama'' \<Longrightarrow>
   ask_question self env q =
     (case chat env of
        ChatReturns content \<Rightarrow>
          (Inr content,
           [OllamaChat ''llama3.2''
              (''Please give a detailed explanation to the following question: '' @ q)])
      | ChatRaises e \<Rightarrow>
          if is_Exception e then
            (Inr None,
             [OllamaChat ''llama3.2''
                (''Please give a detailed explanation to the following question: '' @ q),
              Log (ErrorFromModel ''llama'' e), Print (ErrorMsg e)])
          else
            (Inl e,
             [OllamaChat ''llama3.2''
                (''Please give a detailed explanation to the following question: '' @ q)]))"
  by (simp add: ask_question_def ask_body_def registry_lookup split: chat_reply.splits)

lemma ask_question_gpt:
  "current_model self = ''gpt'' \<Longrightarrow>
   ask_question self env q =
     (if \<not> openai_client self then
        (Inr None, [Log (ErrorFromModel ''gpt'' AttributeError), Print (ErrorMsg AttributeError)])
      else
        (case chat env of
           ChatReturns content \<Rightarrow>
             (Inr content,
              [OpenAIChat ''gpt-4o-mini''
                 (''Please give a detailed explanation to the following question: '' @ q)])
         | ChatRaises e \<Rightarrow>
             if is_Exception e then
               (Inr None,
                [OpenAIChat ''gpt-4o-mini''
                   (''Please give a detailed explanation to the following question: '' @ q),
                 Log (ErrorFromModel ''gpt'' e), Print (ErrorMsg e)])
             else
               (Inl e,
                [OpenAIChat ''gpt-4o-mini''
                   (''Please give a detailed explanation to the following question: '' @ q)])))"
  by (simp add: ask_question_def ask_body_def registry_lookup is_Exception_def
      split: chat_reply.splits)

lemma ask_question_answer:
  "ask_question self env q = (Inr (Some answer), evs) \<Longrightarrow> chat env = ChatReturns (Some answer)"
  by (auto simp add: ask_question_def ask_body_def split: option.splits chat_reply.splits if_splits)

lemma loop_iteration_records:
  assumes "conversation_history (fst (snd (loop_iteration self env))) \<noteq> conversation_history self"
    and "user_input env = Line raw" and "strip raw \<noteq> []" and "\<not> startswith (strip raw) ''!''"
  shows "\<exists>answer. chat env = ChatReturns (Some answer) \<and> answer \<noteq> [] \<and>
           fst (snd (loop_iteration self env)) =
             self\<lparr>conversation_history := conversation_history self @ [(strip raw, answer)]\<rparr>"
proof (cases "map_of AVAILABLE_MODELS (current_model self)")
  case None
  then show ?thesis
    using assms(1) by (simp add: loop_iteration_question [OF assms(2-4)] on_exception_state)
next
  case (Some m)
  obtain r evs where ask: "ask_question self env (strip raw) = (r, evs)"
    by (cases "ask_question self env (strip raw)")
  show ?thesis
  proof (cases r)
    case (Inl e)
    then show ?thesis
      using assms(1) Some ask
      by (simp add: loop_iteration_question [OF assms(2-4)] on_exception_state)
  next
    case (Inr content)
    show ?thesis
    proof (cases content)
      case None
      then show ?thesis
        using assms(1) Some ask Inr by (simp add: loop_iteration_question [OF assms(2-4)])
    next
      case (Some answer)
      then have "chat env = ChatReturns (Some answer)"
        using ask Inr by (simp add: ask_question_answer)
      then show ?thesis
        using assms(1) \<open>map_of AVAILABLE_MODELS (current_model self) = Some m\<close> ask Inr Some
        by (simp add: loop_iteration_question [OF assms(2-4)] split: if_splits)
    qed
  qed
qed

text \<open>
  C7: in a question turn (the stripped line is not empty and does not start with the
  sentinel), when the completion call of the selected backend raises an exception, the
  error is logged and printed, the loop goes on and the session, its history included, is
  exactly what it was before the turn; the same holds when \<^verbatim>\<open>gpt\<close> is selected
  and there is no client object to call. The history changes in a question turn only when
  the completion call returned a non-empty answer, and then by appending the pair of the
  question and that answer.
\<close>

theorem failed_completion_not_recorded:
  assumes "user_input env = Line raw" and "strip raw \<noteq> []"
    and "\<not> startswith (strip raw) ''!''"
  shows "(chat env = ChatRaises e \<and> is_Exception e \<and> current_model self = ''llama'' \<longrightarrow>
            loop_iteration self env =
              (Continue, self,
               [Print InputPrompt, Print (Thinking ''Llama 3.2 (Local)''),
                OllamaChat ''llama3.2''
                  (''Please give a detailed explanation to the following question: '' @ strip raw),
                Log (ErrorFromModel ''llama'' e), Print (ErrorMsg e), Print SorryNoResponse])) \<and>
         (chat env = ChatRaises e \<and> is_Exception e \<and> current_model self = ''gpt'' \<and>
          openai_client self \<longrightarrow>
            loop_iteration self env =
              (Continue, self,
               [Print InputPrompt, Print (Thinking ''OpenAI GPT-4o Mini''),
                OpenAIChat ''gpt-4o-mini''
                  (''Please give a detailed explanation to the following question: '' @ strip raw),
                Log (ErrorFromModel ''gpt'' e), Print (ErrorMsg e), Print SorryNoResponse])) \<and>
         (current_model self = ''gpt'' \<and> \<not> openai_client self \<longrightarrow>
            loop_iteration self env =
              (Continue, self,
               [Print InputPrompt, Print (Thinking ''OpenAI GPT-4o Mini''),
                Log (ErrorFromModel ''gpt'' AttributeError), Print (ErrorMsg AttributeError),
                Print SorryNoResponse])) \<and>
         (conversation_history (fst (snd (loop_iteration self env))) \<noteq> conversation_history self \<longrightarrow>
            (\<exists>answer. chat env = ChatReturns (Some answer) \<and> answer \<noteq> [] \<and>
               fst (snd (loop_iteration self env)) =
                 self\<lparr>conversation_history :=
                        conversation_history self @ [(strip raw, answer)]\<rparr>))"
proof -
  note li = loop_iteration_question [OF assms, of self]
  have llama: "chat env = ChatRaises e \<and> is_Exception e \<and> current_model self = ''llama'' \<longrightarrow>
            loop_iteration self env =
              (Continue, self,
               [Print InputPrompt, Print (Thinking ''Llama 3.2 (Local)''),
                OllamaChat ''llama3.2''
                  (''Please give a detailed explanation to the following question: '' @ strip raw),
                Log (ErrorFromModel ''llama'' e), Print (ErrorMsg e), Print SorryNoResponse])"
    by (simp add: li registry_lookup ask_question_llama)
  have gpt: "chat env = ChatRaises e \<and> is_Exception e \<and> current_model self = ''gpt'' \<and>
          openai_client self \<longrightarrow>
            loop_iteration self env =
              (Continue, self,
               [Print InputPrompt, Print (Thinking ''OpenAI GPT-4o Mini''),
                OpenAIChat ''gpt-4o-mini''
                  (''Please give a detailed explanation to the following question: '' @ strip raw),
                Log (ErrorFromModel ''gpt'' e), Print (ErrorMsg e), Print SorryNoResponse])"
    by (simp add: li registry_lookup ask_question_gpt)
  have no_client: "current_model self = ''gpt'' \<and> \<not> openai_client self \<longrightarrow>
            loop_iteration self env =
              (Continue, self,
               [Print InputPrompt, Print (Thinking ''OpenAI GPT-4o Mini''),
                Log (ErrorFromModel ''gpt'' AttributeError), Print (ErrorMsg AttributeError),
                Print SorryNoResponse])"
    by (simp add: li registry_lookup ask_question_gpt)
  have only: "conversation_history (fst (snd (loop_iteration self env))) \<noteq> conversation_history self \<longrightarrow>
            (\<exists>answer. chat env = ChatReturns (Some answer) \<and> answer \<noteq> [] \<and>
               fst (snd (loop_iteration self env)) =
                 self\<lparr>conversation_history :=
                        conversation_history self @ [(strip raw, answer)]\<rparr>)"
    using loop_iteration_records [OF _ assms] by blast
  show ?thesis
    by (intro conjI) (rule llama gpt no_client only)+
qed

theorem failed_completion_not_recorded_witness:
  "user_input backend_down = Line ''what is a list?'' \<and> strip ''what is a list?'' \<noteq> [] \<and>
   \<not> startswith (strip ''what is a list?'') ''!'' \<and>
   loop_iteration two_exchanges backend_down =
     (Continue, two_exchanges,
      [Print InputPrompt, Print (Thinking ''Llama 3.2 (Local)''),
       OllamaChat ''llama3.2''
         ''Please give a detailed explanation to the following question: what is a list?'',
       Log (ErrorFromModel ''llama'' (OtherException ''connection refused'')),
       Print (ErrorMsg (OtherException ''connection refused'')), Print SorryNoResponse])"
proof -
  have a: "user_input backend_down = Line ''what is a list?''"
    by (simp add: backend_down_def typed_def)
  have s: "strip ''what is a list?'' = ''what is a list?''"
    by (simp add: string_eval)
  have b: "strip ''what is a list?'' \<noteq> []" and c: "\<not> startswith (strip ''what is a list?'') ''!''"
    by (simp_all add: s startswith_def)
  have d: "chat backend_down = ChatRaises (OtherException ''connection refused'') \<and>
           is_Exception (OtherException ''connection refused'') \<and>
           current_model two_exchanges = ''llama''"
    by (simp add: backend_down_def typed_def is_Exception_def two_exchanges_def fresh_def)
  have "loop_iteration two_exchanges backend_down =
     (Continue, two_exchanges,
      [Print InputPrompt, Print (Thinking ''Llama 3.2 (Local)''),
       OllamaChat ''llama3.2''
         (''Please give a detailed explanation to the following question: '' @
          strip ''what is a list?''),
       Log (ErrorFromModel ''llama'' (OtherException ''connection refused'')),
       Print (ErrorMsg (OtherException ''connection refused'')), Print SorryNoResponse])"
    using failed_completion_not_recorded [OF a b c, THEN conjunct1, THEN mp, OF d] .
  then show ?thesis
    using a b c by (simp add: s)
qed

subsection \<open>The invariant of the session\<close>

lemma handle_command_selection:
  assumes "current_model self \<in> set model_keys"
  shows "current_model (fst (snd (handle_command self env command))) \<in> set model_keys"
proof -
  have "map_of AVAILABLE_MODELS k = Some m \<Longrightarrow> k \<in> set model_keys" for k m
    using registry_lookup_None [of k] by auto
  then show ?thesis
    using assms
    by (auto simp add: handle_command_def Let_def split_beta split: list.splits option.splits)
qed

lemma handle_command_history:
  "conversation_history (fst (snd (handle_command self env command))) = conversation_history self \<or>
   conversation_history (fst (snd (handle_command self env command))) = []"
  by (simp add: handle_command_def Let_def split_beta split: list.splits option.splits)

lemma loop_iteration_command_state:
  assumes "user_input env = Line raw" and "startswith (strip raw) ''!''"
  shows "fst (snd (loop_iteration self env)) = fst (snd (handle_command self env (strip raw)))"
  by (cases "handle_command self env (strip raw)")
     (auto simp add: loop_iteration_command [OF assms] on_exception_state split: sum.splits)

lemma loop_iteration_question_state:
  assumes "user_input env = Line raw" and "strip raw \<noteq> []"
    and "\<not> startswith (strip raw) ''!''"
  shows "fst (snd (loop_iteration self env)) = self \<or>
         (\<exists>answer. fst (snd (loop_iteration self env)) =
            self\<lparr>conversation_history := conversation_history self @ [(strip raw, answer)]\<rparr>)"
proof (cases "conversation_history (fst (snd (loop_iteration self env))) = conversation_history self")
  case True
  obtain r evs where ask: "ask_question self env (strip raw) = (r, evs)"
    by (cases "ask_question self env (strip raw)")
  have "fst (snd (loop_iteration self env)) = self"
    using True ask
    by (auto simp add: loop_iteration_question [OF assms] on_exception_state
        split: option.splits sum.splits)
  then show ?thesis ..
next
  case False
  then show ?thesis
    using loop_iteration_records [OF _ assms] by blast
qed

lemma loop_iteration_state_cases:
  "fst (snd (loop_iteration self env)) = self \<or>
   (\<exists>command. fst (snd (loop_iteration self env)) = fst (snd (handle_command self env command))) \<or>
   (\<exists>q a. fst (snd (loop_iteration self env)) =
      self\<lparr>conversation_history := conversation_history self @ [(q, a)]\<rparr>)"
proof (cases "user_input env")
  case (Line raw)
  show ?thesis
  proof (cases "strip raw = []")
    case True
    then show ?thesis
      using Line by (simp add: loop_iteration_def)
  next
    case False
    show ?thesis
    proof (cases "startswith (strip raw) ''!''")
      case True
      then show ?thesis
        using loop_iteration_command_state [OF Line True] by blast
    next
      case nc: False
      show ?thesis
        using loop_iteration_question_state [OF Line False nc] by blast
    qed
  qed
next
  case Interrupt
  then show ?thesis by (simp add: loop_iteration_def)
next
  case EndOfFile
  then show ?thesis by (simp add: loop_iteration_def)
qed

lemma loop_iteration_selection:
  assumes "current_model self \<in> set model_keys"
  shows "current_model (fst (snd (loop_iteration self env))) \<in> set model_keys"
  using loop_iteration_state_cases [of self env] handle_command_selection [OF assms] assms
  by auto

lemma loop_iteration_history:
  "conversation_history (fst (snd (loop_iteration self env))) = conversation_history self \<or>
   conversation_history (fst (snd (loop_iteration self env))) = [] \<or>
   (\<exists>q a. conversation_history (fst (snd (loop_iteration self env))) =
      conversation_history self @ [(q, a)])"
  using loop_iteration_state_cases [of self env]
proof (elim disjE exE)
  assume "fst (snd (loop_iteration self env)) = self"
  then show ?thesis by simp
next
  fix command
  assume "fst (snd (loop_iteration self env)) = fst (snd (handle_command self env command))"
  then show ?thesis
    using handle_command_history [of self env command] by auto
next
  fix q a
  assume "fst (snd (loop_iteration self env)) =
            self\<lparr>conversation_history := conversation_history self @ [(q, a)]\<rparr>"
  then show ?thesis by simp
qed

lemma session_loop_selection:
  "current_model self \<in> set model_keys \<Longrightarrow>
   current_model (fst (snd (session_loop self envs))) \<in> set model_keys"
proof (induction envs arbitrary: self)
  case Nil
  then show ?case by simp
next
  case (Cons env envs)
  obtain st self1 evs where step: "loop_iteration self env = (st, self1, evs)"
    by (cases "loop_iteration self env")
  have valid: "current_model self1 \<in> set model_keys"
    using loop_iteration_selection [OF Cons.prems, of env] step by simp
  show ?case
  proof (cases st)
    case Continue
    then show ?thesis
      using step Cons.IH [OF valid] by (simp add: split_beta)
  next
    case Break
    then show ?thesis using step valid by simp
  next
    case SysExit
    then show ?thesis using step valid by simp
  qed
qed

text \<open>
  C8: after construction the selected key is a key of the registry and the history is
  empty; every command handler, every iteration of the loop (command or question turn) and
  every run of the loop keeps the selected key a key of the registry; and a command
  handler leaves the history as it was or empties it, an iteration of the loop leaves it
  as it was, empties it, or appends one pair at its end.
\<close>

theorem session_invariant:
  "current_model (fst (tutor_init ienv)) \<in> set model_keys \<and>
   conversation_history (fst (tutor_init ienv)) = [] \<and>
   (current_model self \<in> set model_keys \<longrightarrow>
      current_model (fst (snd (handle_command self env command))) \<in> set model_keys \<and>
      current_model (fst (snd (loop_iteration self env))) \<in> set model_keys \<and>
      current_model (fst (snd (session_loop self envs))) \<in> set model_keys) \<and>
   (conversation_history (fst (snd (handle_command self env command))) = conversation_history self \<or>
    conversation_history (fst (snd (handle_command self env command))) = []) \<and>
   (conversation_history (fst (snd (loop_iteration self env))) = conversation_history self \<or>
    conversation_history (fst (snd (loop_iteration self env))) = [] \<or>
    (\<exists>q a. conversation_history (fst (snd (loop_iteration self env))) =
       conversation_history self @ [(q, a)]))"
proof -
  have init: "current_model (fst (tutor_init ienv)) \<in> set model_keys"
    "conversation_history (fst (tutor_init ienv)) = []"
    by (simp_all add: tutor_init_def split_beta model_keys_eval)
  have sel: "current_model self \<in> set model_keys \<longrightarrow>
      current_model (fst (snd (handle_command self env command))) \<in> set model_keys \<and>
      current_model (fst (snd (loop_iteration self env))) \<in> set model_keys \<and>
      current_model (fst (snd (session_loop self envs))) \<in> set model_keys"
    using handle_command_selection loop_iteration_selection session_loop_selection by blast
  show ?thesis
    by (intro conjI) (rule init sel handle_command_history loop_iteration_history)+
qed


theorem session_invariant_witness:
  "current_model fresh \<in> set model_keys \<and>
   current_model (fst (tutor_init init_ok)) \<in> set model_keys \<and>
   current_model (fst (snd (loop_iteration fresh llama_installed))) \<in> set model_keys \<and>
   current_model (fst (snd (session_loop fresh [llama_installed, backend_down]))) \<in> set model_keys"
proof -
  have a: "current_model fresh \<in> set model_keys"
    by (simp add: fresh_def model_keys_eval)
  note t = session_invariant [of init_ok fresh llama_installed "''''" "[llama_installed, backend_down]"]
  have b: "current_model (fst (tutor_init init_ok)) \<in> set model_keys"
    using t by (rule conjunct1)
  have c: "current_model (fst (snd (loop_iteration fresh llama_installed))) \<in> set model_keys \<and>
   current_model (fst (snd (session_loop fresh [llama_installed, backend_down]))) \<in> set model_keys"
    using t [THEN conjunct2, THEN conjunct2, THEN conjunct1, THEN mp, OF a] by (rule conjunct2)
  show ?thesis
    using a b c by (simp only: simp_thms)
qed

subsection \<open>How availability is tested\<close>

lemma display_welcome_eval:
  "display_welcome self replies =
     (case map_of AVAILABLE_MODELS (current_model self) of
        None \<Rightarrow> (Inl (KeyError (current_model self)), [OllamaList])
      | Some m \<Rightarrow>
          (Inr (),
           [OllamaList,
            Display
              (WelcomeText
                 [(''gpt'', ''OpenAI GPT-4o Mini'', openai_client self),
                  (''llama'', ''Llama 3.2 (Local)'',
                   fst (test_model_availability self (replies 0) ''llama''))]
                 (description m))]))"
proof -
  have "welcome_lines self replies 0 AVAILABLE_MODELS =
          ([(''gpt'', ''OpenAI GPT-4o Mini'', openai_client self),
            (''llama'', ''Llama 3.2 (Local)'',
             fst (test_model_availability self (replies 0) ''llama''))],
           [OllamaList])"
    by (simp add: AVAILABLE_MODELS_def availability_gpt availability_llama)
  then show ?thesis
    by (simp add: display_welcome_def split: option.splits)
qed

text \<open>
  C9 as stated (every reference to a model's availability probes that model's backend,
  for each of the two providers) fails for the provider \<^verbatim>\<open>openai\<close>:
  \<^verbatim>\<open>!model gpt\<close> switches the model without any call to a backend, and the test
  answers from the client object made at start-up whatever the backend does now.
\<close>

theorem gpt_switch_without_probe:
  "handle_command (fresh\<lparr>openai_client := True\<rparr>) (typed ''!model gpt'') ''!model gpt'' =
     (Inr True, fresh\<lparr>openai_client := True, current_model := ''gpt''\<rparr>,
      [Print (SwitchedTo ''OpenAI GPT-4o Mini'')]) \<and>
   filter is_backend_call
     (snd (snd (handle_command (fresh\<lparr>openai_client := True\<rparr>) (typed ''!model gpt'')
        ''!model gpt''))) = [] \<and>
   test_model_availability (fresh\<lparr>openai_client := True\<rparr>) (ListRaises ''unreachable'') ''gpt'' =
     (True, [])"
  by (simp add: handle_command_def fresh_def typed_def string_eval registry_lookup
      availability_gpt)

text \<open>
  C9, amended: the availability of \<^verbatim>\<open>llama\<close> is decided by one fresh call of
  \<^verbatim>\<open>ollama.list()\<close> at every reference, from the reply of that call alone and not
  from the session: so does every \<^verbatim>\<open>!model llama\<close> and every rendering of the
  welcome text. The availability of \<^verbatim>\<open>gpt\<close> is whether the client object exists,
  which is settled at start-up; testing it calls no backend.
\<close>

theorem availability_checks:
  "test_model_availability self reply ''llama'' =
     ((case reply of ListRaises e \<Rightarrow> False
       | ListModels models \<Rightarrow> any_name_contains ''llama3.2'' models), [OllamaList]) \<and>
   test_model_availability self reply ''gpt'' = (openai_client self, []) \<and>
   (startswith command ''!'' \<and> split (drop 1 command) = p0 # p1 # others \<and>
    lower p0 = ''model'' \<and> lower p1 = ''llama'' \<longrightarrow>
      handle_command self env command =
        (if fst (test_model_availability self (ollama_list env 0) ''llama'')
         then (Inr True, self\<lparr>current_model := ''llama''\<rparr>,
               [OllamaList, Print (SwitchedTo ''Llama 3.2 (Local)'')])
         else (Inr True, self, [OllamaList, Print (ModelNotAvailable ''llama'')]))) \<and>
   (startswith command ''!'' \<and> split (drop 1 command) = p0 # p1 # others \<and>
    lower p0 = ''model'' \<and> lower p1 = ''gpt'' \<longrightarrow>
      handle_command self env command =
        (if openai_client self
         then (Inr True, self\<lparr>current_model := ''gpt''\<rparr>,
               [Print (SwitchedTo ''OpenAI GPT-4o Mini'')])
         else (Inr True, self, [Print (ModelNotAvailable ''gpt'')]))) \<and>
   display_welcome self replies =
     (case map_of AVAILABLE_MODELS (current_model self) of
        None \<Rightarrow> (Inl (KeyError (current_model self)), [OllamaList])
      | Some m \<Rightarrow>
          (Inr (),
           [OllamaList,
            Display
              (WelcomeText
                 [(''gpt'', ''OpenAI GPT-4o Mini'', openai_client self),
                  (''llama'', ''Llama 3.2 (Local)'',
                   fst (test_model_availability self (replies 0) ''llama''))]
                 (description m))]))"
proof -
  have llama: "startswith command ''!'' \<and> split (drop 1 command) = p0 # p1 # others \<and>
    lower p0 = ''model'' \<and> lower p1 = ''llama'' \<longrightarrow>
      handle_command self env command =
        (if fst (test_model_availability self (ollama_list env 0) ''llama'')
         then (Inr True, self\<lparr>current_model := ''llama''\<rparr>,
               [OllamaList, Print (SwitchedTo ''Llama 3.2 (Local)'')])
         else (Inr True, self, [OllamaList, Print (ModelNotAvailable ''llama'')]))"
    by (simp add: handle_command_model_arg registry_lookup availability_llama)
  have gpt: "startswith command ''!'' \<and> split (drop 1 command) = p0 # p1 # others \<and>
    lower p0 = ''model'' \<and> lower p1 = ''gpt'' \<longrightarrow>
      handle_command self env command =
        (if openai_client self
         then (Inr True, self\<lparr>current_model := ''gpt''\<rparr>,
               [Print (SwitchedTo ''OpenAI GPT-4o Mini'')])
         else (Inr True, self, [Print (ModelNotAvailable ''gpt'')]))"
    by (simp add: handle_command_model_arg registry_lookup availability_gpt)
  show ?thesis
    by (intro conjI) (rule availability_llama availability_gpt llama gpt display_welcome_eval)+
qed

theorem availability_checks_witness:
  "startswith ''!model llama'' ''!'' \<and>
   split (drop 1 ''!model llama'') = [''model'', ''llama''] \<and>
   lower ''model'' = ''model'' \<and> lower ''llama'' = ''llama'' \<and>
   handle_command (fresh\<lparr>current_model := ''gpt''\<rparr>) llama_installed ''!model llama'' =
     (Inr True, fresh, [OllamaList, Print (SwitchedTo ''Llama 3.2 (Local)'')])"
proof -
  have a: "startswith ''!model llama'' ''!'' \<and>
      split (drop 1 ''!model llama'') = [''model'', ''llama''] \<and>
      lower ''model'' = ''model'' \<and> lower ''llama'' = ''llama''"
    by (simp add: string_eval)
  have b: "fst (test_model_availability (fresh\<lparr>current_model := ''gpt''\<rparr>)
             (ollama_list llama_installed 0) ''llama'')"
    by (simp add: availability_llama llama_installed_def typed_def startswith_def)
  have "handle_command (fresh\<lparr>current_model := ''gpt''\<rparr>) llama_installed ''!model llama'' =
        (if fst (test_model_availability (fresh\<lparr>current_model := ''gpt''\<rparr>)
                   (ollama_list llama_installed 0) ''llama'')
         then (Inr True, fresh\<lparr>current_model := ''gpt'', current_model := ''llama''\<rparr>,
               [OllamaList, Print (SwitchedTo ''Llama 3.2 (Local)'')])
         else (Inr True, fresh\<lparr>current_model := ''gpt''\<rparr>,
               [OllamaList, Print (ModelNotAvailable ''llama'')]))"
    using availability_checks [THEN conjunct2, THEN conjunct2, THEN conjunct1, THEN mp, OF a] .
  then show ?thesis
    using a b by (simp add: fresh_def)
qed

subsection \<open>When a command ends the loop\<close>

text \<open>
  After a command the loop ends exactly when the stripped line starts with
  \<^verbatim>\<open>!quit\<close> or \<^verbatim>\<open>!exit\<close>, whatever verb the handler found: an unknown verb
  is reported and leaves the session as it was, and ends the loop under that prefix test
  only; a verb \<^verbatim>\<open>quit\<close> or \<^verbatim>\<open>exit\<close> in any case prints the farewell, and ends
  the loop under the same test only.
\<close>

lemma unknown_verb_turn:
  assumes "user_input env = Line raw" and "startswith (strip raw) ''!''"
    and "split (drop 1 (strip raw)) = p0 # args"
    and "lower p0 \<notin> set [''quit'', ''exit'', ''help'', ''model'', ''history'', ''clear'', ''save'']"
  shows "loop_iteration self env =
           (if startswith (strip raw) ''!quit'' \<or> startswith (strip raw) ''!exit''
            then Break else Continue,
            self, [Print InputPrompt, Print (UnknownCommand (lower p0))])"
  by (simp add: loop_iteration_command [OF assms(1,2)]
      handle_command_unknown_verb [OF assms(2,3,4)])

lemma quit_verb_turn:
  assumes "user_input env = Line raw" and "startswith (strip raw) ''!''"
    and "split (drop 1 (strip raw)) = p0 # args"
    and "lower p0 \<in> set [''quit'', ''exit'']"
  shows "loop_iteration self env =
           (if startswith (strip raw) ''!quit'' \<or> startswith (strip raw) ''!exit''
            then Break else Continue,
            self, [Print InputPrompt, Print Goodbye])"
proof -
  have "handle_command self env (strip raw) = (Inr True, self, [Print Goodbye])"
    using assms(2,3,4) by (simp add: handle_command_def Let_def)
  then show ?thesis
    by (simp add: loop_iteration_command [OF assms(1,2)])
qed

subsection \<open>When the file system fails\<close>

text \<open>
  Whatever the file system does, the text that \<^verbatim>\<open>save_conversation\<close> has handed to
  \<^verbatim>\<open>f.write\<close> is the concatenation of the first writes of the full export, none
  skipped; and when the close raises, the error is reported, the file is not known to be
  complete and no success is reported, even if every write went through.
\<close>

lemma do_writes_take:
  "\<exists>n. fst (do_writes fails k ws) = map FileWrite (take n ws)"
proof (induction ws arbitrary: k)
  case Nil
  then show ?case by simp
next
  case (Cons w ws)
  show ?case
  proof (cases "fails k")
    case None
    obtain n where "fst (do_writes fails (Suc k) ws) = map FileWrite (take n ws)"
      using Cons.IH by blast
    then have "fst (do_writes fails k (w # ws)) = map FileWrite (take (Suc n) (w # ws))"
      using None by (simp add: split_beta)
    then show ?thesis by blast
  next
    case (Some e)
    then have "fst (do_writes fails k (w # ws)) = map FileWrite (take 0 (w # ws))"
      by simp
    then show ?thesis by blast
  qed
qed

lemma save_conversation_writes_prefix:
  "\<exists>n. written_text (save_conversation self env) =
         concat (take n (title_line (now_title env) # entry_writes 1 (conversation_history self)))"
proof -
  let ?ws = "title_line (now_title env) # entry_writes 1 (conversation_history self)"
  obtain n where n: "fst (do_writes (file_write env) 0 ?ws) = map FileWrite (take n ?ws)"
    using do_writes_take by blast
  show ?thesis
  proof (cases "conversation_history self = [] \<or> file_open env \<noteq> None")
    case True
    then have "written_text (save_conversation self env) = concat (take 0 ?ws)"
      by (auto simp add: save_conversation_def)
    then show ?thesis by blast
  next
    case False
    obtain evs r where dw: "do_writes (file_write env) 0 ?ws = (evs, r)"
      by (cases "do_writes (file_write env) 0 ?ws")
    have evs: "evs = map FileWrite (take n ?ws)"
      using n dw by simp
    have "written_text (save_conversation self env) = written_text evs"
      using False dw
      by (cases r; cases "file_close env")
         (simp_all add: save_conversation_def Let_def written_text_append del: do_writes.simps)
    then have "written_text (save_conversation self env) = concat (take n ?ws)"
      by (simp only: evs written_text_writes)
    then show ?thesis by blast
  qed
qed

lemma save_conversation_close_failure:
  assumes "conversation_history self \<noteq> []" and "file_open env = None"
    and "file_close env = Some e"
  shows "\<exists>evs. save_conversation self env =
           FileOpen (''tutor_conversation_'' @ now_stamp env @ ''.md'') # evs @
           [Print (ErrorSaving e)] \<and>
         FileClose \<notin> set (save_conversation self env) \<and>
         Print (SavedTo (''tutor_conversation_'' @ now_stamp env @ ''.md'')) \<notin>
           set (save_conversation self env)"
proof -
  let ?ws = "title_line (now_title env) # entry_writes 1 (conversation_history self)"
  obtain n where n: "fst (do_writes (file_write env) 0 ?ws) = map FileWrite (take n ?ws)"
    using do_writes_take by blast
  obtain evs r where dw: "do_writes (file_write env) 0 ?ws = (evs, r)"
    by (cases "do_writes (file_write env) 0 ?ws")
  have evs: "evs = map FileWrite (take n ?ws)"
    using n dw by simp
  have sc: "save_conversation self env =
      FileOpen (''tutor_conversation_'' @ now_stamp env @ ''.md'') # evs @ [Print (ErrorSaving e)]"
    using assms dw by (simp add: save_conversation_def Let_def del: do_writes.simps)
  have "FileClose \<notin> set (save_conversation self env)"
    unfolding sc evs by auto
  moreover have "Print (SavedTo (''tutor_conversation_'' @ now_stamp env @ ''.md'')) \<notin>
      set (save_conversation self env)"
    unfolding sc evs by auto
  ultimately show ?thesis
    using sc by blast
qed

end
